theory Spec2Isabelle
  imports Main "HOL-Library.Sublist"
begin

section \<open>Strings and numbers of the host language\<close>

text \<open>
  A string is the list of its UTF-16 code units, so that titles and names outside ASCII
  are values of the model. \<open>ascii\<close> turns a literal of the source into code units.
\<close>

type_synonym cadena = "nat list"

definition ascii :: "string \<Rightarrow> cadena" where
  "ascii s = map of_char s"

text \<open>
  A \<^verbatim>\<open>number\<close> is a double. The numbers of this program that count days, money or
  milliseconds are integers, and an integer is a double when 53 bits hold its significand.
  \<open>cuanto n\<close> is the distance between neighbouring doubles at magnitude \<open>n\<close>, and
  \<open>redondear53\<close> rounds an integer to the nearest double, ties going to the even
  significand: it is what the sum, difference or product of two integral doubles yields from
  the exact result, short of overflow.
\<close>

function cuanto :: "nat \<Rightarrow> nat" where
  "cuanto n = (if n < 2 ^ 53 then 1 else 2 * cuanto (n div 2))"
  by pat_completeness auto
termination
  by (relation "measure id") auto

declare cuanto.simps [simp del]

definition redondear53 :: "int \<Rightarrow> int" where
  "redondear53 x =
     (let n = nat \<bar>x\<bar>;
          q = cuanto n;
          k = n div q;
          r = n mod q;
          m = (if 2 * r < q \<or> (2 * r = q \<and> even k) then k * q else (k + 1) * q)
      in sgn x * int m)"

text \<open>The result of a multiplication: an integer, or an infinity when the rounded product
  leaves the range of the doubles.\<close>

datatype numero = Num int | Infinito | MenosInfinito

definition producto :: "int \<Rightarrow> int \<Rightarrow> numero" where
  "producto a b =
     (let m = redondear53 (a * b)
      in if 2 ^ 1024 \<le> m then Infinito
         else if m \<le> - (2 ^ 1024) then MenosInfinito
         else Num m)"

section \<open>Dates\<close>

text \<open>
  A \<^verbatim>\<open>Date\<close> holds a time value, the milliseconds since the epoch, of magnitude at most
  \<open>8.64 * 10^15\<close>, or is invalid (\<^verbatim>\<open>NaN\<close>, here \<open>None\<close>). \<^verbatim>\<open>TimeClip\<close> makes a
  date of an integer, and \<^verbatim>\<open>new Date()\<close> holds the reading of the clock.
\<close>

type_synonym fecha = "int option"

definition msPerDay :: int where
  "msPerDay = 1000 * 60 * 60 * 24"

definition valido :: "int \<Rightarrow> bool" where
  "valido t \<longleftrightarrow> \<bar>t\<bar> \<le> 8640000000000000"

definition TimeClip :: "int \<Rightarrow> fecha" where
  "TimeClip t = (if valido t then Some t else None)"

definition Date_new :: "int \<Rightarrow> fecha" where
  "Date_new reloj = TimeClip reloj"

text \<open>
  The time zone of the host is the function \<^verbatim>\<open>LocalTZA(t, isUTC)\<close> of ECMA-262: the
  offset of local time from UTC in milliseconds, asked either at a UTC instant
  (\<open>isUTC = True\<close>) or at a local time (\<open>isUTC = False\<close>).
\<close>

type_synonym zona = "int \<Rightarrow> bool \<Rightarrow> int"

definition LocalTime :: "zona \<Rightarrow> int \<Rightarrow> int" where
  "LocalTime z t = t + z t True"

definition UTC :: "zona \<Rightarrow> int \<Rightarrow> int" where
  "UTC z t = t - z t False"

text \<open>
  \<^verbatim>\<open>d.setDate(d.getDate() + n)\<close>. On an invalid date both methods yield \<^verbatim>\<open>NaN\<close> and
  the date stays invalid. On a date of time value \<open>t\<close>, \<^verbatim>\<open>getDate\<close> is the day of the
  month of the local time \<open>LocalTime t\<close>; \<^verbatim>\<open>setDate(dt)\<close> keeps the local year, month
  and time within the day, and takes as day number the day number of the first of that month
  plus \<open>dt - 1\<close> (\<^verbatim>\<open>MakeDay\<close>, which lets the day of the month overflow into the next
  months). With \<open>dt = getDate() + n\<close> that is the local time moved by \<open>n\<close> whole days,
  read back as a UTC instant and clipped.
\<close>

definition setDate_getDate_mas :: "zona \<Rightarrow> fecha \<Rightarrow> int \<Rightarrow> fecha" where
  "setDate_getDate_mas z d n =
     (case d of
        None \<Rightarrow> None
      | Some t \<Rightarrow> TimeClip (UTC z (LocalTime z t + n * msPerDay)))"

subsection \<open>The calendar\<close>

text \<open>Year, month (1 to 12) and day of the month of a day number (days since the epoch),
  in the proleptic Gregorian calendar: the day within its era of 400 years, then the
  century, the cycle of four years and the year within them, years running from March.\<close>

definition fecha_civil :: "int \<Rightarrow> int \<times> int \<times> int" where
  "fecha_civil dia =
     (let z = dia + 719468;
          era = z div 146097;
          doe = z mod 146097;
          siglo = min 3 (doe div 36524);
          e = doe - 36524 * siglo;
          ciclo = e div 1461;
          f = e mod 1461;
          i = min 3 (f div 365);
          yoe = 100 * siglo + 4 * ciclo + i;
          doy = f - 365 * i;
          mp = (5 * doy + 2) div 153;
          d = doy - (153 * mp + 2) div 5 + 1;
          m = (if mp < 10 then mp + 3 else mp - 9);
          y = yoe + era * 400 + (if m \<le> 2 then 1 else 0)
      in (y, m, d))"


subsection \<open>\<^verbatim>\<open>toISOString\<close> and \<^verbatim>\<open>split("T")[0]\<close>\<close>

text \<open>\<open>digitos k n\<close>: the last \<open>k\<close> decimal digits of \<open>n\<close>, as code units; \<open>valor\<close>
  reads a number back from its digits.\<close>

fun digitos :: "nat \<Rightarrow> nat \<Rightarrow> cadena" where
  "digitos 0 n = []"
| "digitos (Suc k) n = digitos k (n div 10) @ [48 + n mod 10]"


definition anio_ISO :: "int \<Rightarrow> cadena" where
  "anio_ISO y =
     (if 0 \<le> y \<and> y \<le> 9999 then digitos 4 (nat y)
      else (if y < 0 then 45 else 43) # digitos 6 (nat \<bar>y\<bar>))"

definition fecha_ISO :: "int \<Rightarrow> cadena" where
  "fecha_ISO t =
     (case fecha_civil (t div msPerDay) of (y, m, d) \<Rightarrow>
        anio_ISO y @ [45] @ digitos 2 (nat m) @ [45] @ digitos 2 (nat d))"

definition hora_ISO :: "int \<Rightarrow> cadena" where
  "hora_ISO t =
     (let ms = nat (t mod msPerDay)
      in digitos 2 (ms div 3600000) @ [58] @ digitos 2 (ms div 60000 mod 60) @ [58]
         @ digitos 2 (ms div 1000 mod 60) @ [46] @ digitos 3 (ms mod 1000))"

text \<open>\<^verbatim>\<open>toISOString\<close> throws \<^verbatim>\<open>RangeError\<close> on an invalid date.\<close>

datatype error = RangeError

definition toISOString :: "fecha \<Rightarrow> error + cadena" where
  "toISOString d =
     (case d of
        None \<Rightarrow> Inl RangeError
      | Some t \<Rightarrow> Inr (fecha_ISO t @ ascii ''T'' @ hora_ISO t @ ascii ''Z''))"

text \<open>\<^verbatim>\<open>s.split("T")[0]\<close>: the part of \<open>s\<close> before its first \<^verbatim>\<open>T\<close> (code unit 84), all of
  \<open>s\<close> when it has none.\<close>

definition split_T_0 :: "cadena \<Rightarrow> cadena" where
  "split_T_0 s = takeWhile (\<lambda>c. c \<noteq> 84) s"

section \<open>The entities\<close>

text \<open>Objects live in stores, one list per class; a reference is an index into the store
  of its class, and \<^verbatim>\<open>new\<close> appends to the store.\<close>

type_synonym ref = nat

record Libro =
  titulo :: cadena
  autor :: cadena
  isbn :: cadena
  disponible :: bool

record Usuario =
  nombre :: cadena
  id_usuario :: cadena

record Prestamo =
  libro :: ref
  usuario :: ref
  fecha_prestamo :: fecha
  fecha_devolucion :: fecha
  devuelto :: bool

definition Libro_new :: "cadena \<Rightarrow> cadena \<Rightarrow> cadena \<Rightarrow> Libro" where
  "Libro_new t a i = \<lparr>titulo = t, autor = a, isbn = i, disponible = True\<rparr>"

definition Usuario_new :: "cadena \<Rightarrow> cadena \<Rightarrow> Usuario" where
  "Usuario_new n i = \<lparr>nombre = n, id_usuario = i\<rparr>"

text \<open>The constructor of \<^verbatim>\<open>Prestamo\<close> reads the clock twice, once for each date:
  \<open>t1\<close> and \<open>t2\<close> are the two readings, in that order.\<close>

definition Prestamo_new :: "zona \<Rightarrow> int \<Rightarrow> int \<Rightarrow> ref \<Rightarrow> ref \<Rightarrow> Prestamo" where
  "Prestamo_new z t1 t2 l u =
     \<lparr>libro = l, usuario = u, fecha_prestamo = Date_new t1,
      fecha_devolucion = setDate_getDate_mas z (Date_new t2) 14, devuelto = False\<rparr>"

section \<open>Fine calculators and notifiers\<close>

text \<open>An object of an abstract class is the record of its methods. A calculator is called
  with a number of days, which is an integral double.\<close>

record CalculadoraMulta =
  calcular :: "int \<Rightarrow> numero"

definition MultaEstandar :: CalculadoraMulta where
  "MultaEstandar = \<lparr>calcular = (\<lambda>dias_retraso. producto dias_retraso 10)\<rparr>"

definition MultaEstudiante :: CalculadoraMulta where
  "MultaEstudiante = \<lparr>calcular = (\<lambda>dias_retraso. producto dias_retraso 5)\<rparr>"

definition MultaVIP :: CalculadoraMulta where
  "MultaVIP = \<lparr>calcular = (\<lambda>dias_retraso. Num 0)\<rparr>"

text \<open>What the program writes to the console, one constructor per \<^verbatim>\<open>console.log\<close> of
  the source; \<open>Linea\<close> is any other line (of a notifier that is not one of the two below).\<close>

datatype salida =
    LibroNoDisponible cadena
  | PrestamoRealizado cadena cadena
  | YaDevuelto
  | Retraso int numero
  | ATiempo
  | Devuelto cadena cadena
  | EmailA cadena cadena
  | SMSA cadena cadena
  | Linea cadena

text \<open>\<^verbatim>\<open>enviar(mensaje, destinatario)\<close> writes to the console and returns a boolean.\<close>

record Notificador =
  enviar :: "cadena \<Rightarrow> cadena \<Rightarrow> salida list \<times> bool"

definition NotificadorEmail :: Notificador where
  "NotificadorEmail = \<lparr>enviar = (\<lambda>mensaje destinatario. ([EmailA destinatario mensaje], True))\<rparr>"

definition NotificadorSMS :: Notificador where
  "NotificadorSMS = \<lparr>enviar = (\<lambda>mensaje destinatario. ([SMSA destinatario mensaje], True))\<rparr>"

section \<open>The loan manager\<close>

record GestorPrestamos =
  calculadora_multa :: CalculadoraMulta
  notificador :: Notificador
  prestamos :: "ref list"

definition GestorPrestamos_new :: "CalculadoraMulta \<Rightarrow> Notificador \<Rightarrow> GestorPrestamos" where
  "GestorPrestamos_new c n = \<lparr>calculadora_multa = c, notificador = n, prestamos = []\<rparr>"

text \<open>The state of the program: the stores of the four classes, the console, and the calls
  of \<^verbatim>\<open>enviar\<close> made so far (message, recipient, result).\<close>

record estado =
  libros :: "Libro list"
  usuarios :: "Usuario list"
  almacen :: "Prestamo list"
  gestores :: "GestorPrestamos list"
  consola :: "salida list"
  enviados :: "(cadena \<times> cadena \<times> bool) list"

definition estado_vacio :: estado where
  "estado_vacio = \<lparr>libros = [], usuarios = [], almacen = [], gestores = [], consola = [],
     enviados = []\<rparr>"

text \<open>The message of a loan, from the title and the ISO string of the due date.\<close>

definition mensaje_prestamo :: "cadena \<Rightarrow> cadena \<Rightarrow> cadena" where
  "mensaje_prestamo tit texto_iso =
     ascii ''Has prestado '' @ [39] @ tit @ [39] @ ascii ''. Fecha de devoluci'' @ [243]
       @ ascii ''n: '' @ split_T_0 texto_iso"

text \<open>
  \<open>realizar_prestamo z t1 t2 g l u s\<close>: manager \<open>g\<close> lends book \<open>l\<close> to user \<open>u\<close> in state
  \<open>s\<close>, in time zone \<open>z\<close>, the clock reading \<open>t1\<close> and then \<open>t2\<close>. The result is \<open>None\<close> when
  a reference points to no object (no such call exists in the typed source). Otherwise it is
  the state after the call with its outcome: the value returned (\<open>None\<close> for \<^verbatim>\<open>null\<close>, the
  reference of the new loan otherwise), or the exception thrown. \<^verbatim>\<open>toISOString\<close> throws
  when the due date is invalid, after the book is flagged and the loan stored, and before
  the notifier is called.
\<close>

definition realizar_prestamo ::
  "zona \<Rightarrow> int \<Rightarrow> int \<Rightarrow> ref \<Rightarrow> ref \<Rightarrow> ref \<Rightarrow> estado
     \<Rightarrow> ((error + ref option) \<times> estado) option" where
  "realizar_prestamo z t1 t2 g l u s =
     (if g < length (gestores s) \<and> l < length (libros s) \<and> u < length (usuarios s) then
        let lib = libros s ! l; usr = usuarios s ! u; ges = gestores s ! g in
        if \<not> disponible lib then
          Some (Inr None, s\<lparr>consola := consola s @ [LibroNoDisponible (titulo lib)]\<rparr>)
        else
          let p = Prestamo_new z t1 t2 l u;
              r = length (almacen s);
              s1 = s\<lparr>libros := (libros s)[l := lib\<lparr>disponible := False\<rparr>],
                     almacen := almacen s @ [p],
                     gestores := (gestores s)[g := ges\<lparr>prestamos := prestamos ges @ [r]\<rparr>]\<rparr>
          in case toISOString (fecha_devolucion p) of
               Inl e \<Rightarrow> Some (Inl e, s1)
             | Inr texto_iso \<Rightarrow>
                 let mensaje = mensaje_prestamo (titulo lib) texto_iso;
                     (lineas, ok) = enviar (notificador ges) mensaje (nombre usr)
                 in Some (Inr (Some r),
                      s1\<lparr>consola := consola s @ lineas
                            @ [PrestamoRealizado (titulo lib) (nombre usr)],
                         enviados := enviados s @ [(mensaje, nombre usr, ok)]\<rparr>)
      else None)"

text \<open>
  \<open>devolver_libro reloj g p s\<close>: manager \<open>g\<close> takes loan \<open>p\<close> back in state \<open>s\<close>, the
  clock reading \<open>reloj\<close>. \<open>None\<close> when a reference points to no object. A comparison with an
  invalid date is false. The difference of the two time values is rounded as a double; for
  two valid dates it stays below \<open>2^54\<close>, where \<^verbatim>\<open>Math.floor\<close> of its quotient by the
  milliseconds of a day is the integer quotient \<open>div\<close> (the double nearest to the exact
  quotient never reaches the next integer).
\<close>

definition devolver_libro :: "int \<Rightarrow> ref \<Rightarrow> ref \<Rightarrow> estado \<Rightarrow> estado option" where
  "devolver_libro reloj g p s =
     (if g < length (gestores s) \<and> p < length (almacen s) then
        let pr = almacen s ! p; ges = gestores s ! g in
        if devuelto pr then Some (s\<lparr>consola := consola s @ [YaDevuelto]\<rparr>)
        else if libro pr < length (libros s) \<and> usuario pr < length (usuarios s) then
          let informe =
                (case (Date_new reloj, fecha_devolucion pr) of
                   (Some fecha_actual, Some vence) \<Rightarrow>
                     if fecha_actual > vence then
                       let dias_retraso =
                             redondear53 (fecha_actual - vence) div (1000 * 60 * 60 * 24);
                           multa = calcular (calculadora_multa ges) dias_retraso
                       in Retraso dias_retraso multa
                     else ATiempo
                 | _ \<Rightarrow> ATiempo);
              lib = libros s ! libro pr;
              usr = usuarios s ! usuario pr
          in Some (s\<lparr>almacen := (almacen s)[p := pr\<lparr>devuelto := True\<rparr>],
                     libros := (libros s)[libro pr := lib\<lparr>disponible := True\<rparr>],
                     consola := consola s @ [informe, Devuelto (titulo lib) (nombre usr)]\<rparr>)
        else None
      else None)"

subsection \<open>Sequences of calls\<close>

text \<open>A caller may catch the exception of \<open>realizar_prestamo\<close> and go on: the state after
  the call is the state of the next call either way.\<close>

datatype llamada =
    NuevoLibro cadena cadena cadena
  | NuevoUsuario cadena cadena
  | NuevoGestor CalculadoraMulta Notificador
  | RealizarPrestamo zona int int ref ref ref
  | DevolverLibro int ref ref

fun paso :: "llamada \<Rightarrow> estado \<Rightarrow> estado option" where
  "paso (NuevoLibro t a i) s = Some (s\<lparr>libros := libros s @ [Libro_new t a i]\<rparr>)"
| "paso (NuevoUsuario n i) s = Some (s\<lparr>usuarios := usuarios s @ [Usuario_new n i]\<rparr>)"
| "paso (NuevoGestor c n) s = Some (s\<lparr>gestores := gestores s @ [GestorPrestamos_new c n]\<rparr>)"
| "paso (RealizarPrestamo z t1 t2 g l u) s = map_option snd (realizar_prestamo z t1 t2 g l u s)"
| "paso (DevolverLibro t g p) s = devolver_libro t g p s"

fun ejecutar :: "llamada list \<Rightarrow> estado \<Rightarrow> estado option" where
  "ejecutar [] s = Some s"
| "ejecutar (c # cs) s = (case paso c s of None \<Rightarrow> None | Some s' \<Rightarrow> ejecutar cs s')"

subsection \<open>Fresh and consistent states\<close>

text \<open>A state is freshly constructed when every book is as its constructor leaves it
  (available), no loan exists and every manager has an empty list of loans.\<close>

definition recien_construido :: "estado \<Rightarrow> bool" where
  "recien_construido s \<longleftrightarrow>
     list_all disponible (libros s) \<and> almacen s = [] \<and>
     list_all (\<lambda>g. prestamos g = []) (gestores s)"

text \<open>A state is consistent when every loan refers to a book and a user of the stores, a
  book is available exactly when every loan of it is returned, no book has two open loans,
  and the loans of the store are exactly those in the lists of the managers.\<close>

definition consistente :: "estado \<Rightarrow> bool" where
  "consistente s \<longleftrightarrow>
     (\<forall>p < length (almacen s).
        libro (almacen s ! p) < length (libros s) \<and> usuario (almacen s ! p) < length (usuarios s)) \<and>
     (\<forall>l < length (libros s).
        disponible (libros s ! l) \<longleftrightarrow>
        (\<forall>p < length (almacen s). libro (almacen s ! p) = l \<longrightarrow> devuelto (almacen s ! p))) \<and>
     (\<forall>p < length (almacen s). \<forall>q < length (almacen s).
        \<not> devuelto (almacen s ! p) \<and> \<not> devuelto (almacen s ! q) \<and>
        libro (almacen s ! p) = libro (almacen s ! q) \<longrightarrow> p = q) \<and>
     (\<forall>p < length (almacen s). \<exists>g < length (gestores s). p \<in> set (prestamos (gestores s ! g))) \<and>
     (\<forall>g < length (gestores s). \<forall>p \<in> set (prestamos (gestores s ! g)). p < length (almacen s))"

subsection \<open>A small library\<close>

text \<open>A host whose local time is UTC, and the states of a library of one book, one user
  and one manager: before any loan, with the book on loan, and with the book returned.\<close>

definition zona_utc :: zona where
  "zona_utc = (\<lambda>t isUTC. 0)"

definition biblioteca :: estado where
  "biblioteca =
     \<lparr>libros = [Libro_new (ascii ''1984'') (ascii ''George Orwell'') (ascii ''978-0-452-28423-4'')],
      usuarios = [Usuario_new (ascii ''Ana'') (ascii ''U001'')],
      almacen = [],
      gestores = [GestorPrestamos_new MultaEstandar NotificadorEmail],
      consola = [], enviados = []\<rparr>"

definition prestada :: estado where
  "prestada = snd (the (realizar_prestamo zona_utc 1000 1000 0 0 0 biblioteca))"

definition devuelta :: estado where
  "devuelta = the (devolver_libro 5000 0 0 prestada)"

text \<open>The same library with the book lent at the earliest time value there is; a host that
  moves its clocks forward by one hour ten days after the epoch; and a manager whose
  notifier rejects every message.\<close>

definition prestada_antigua :: estado where
  "prestada_antigua =
     snd (the (realizar_prestamo zona_utc (- 8640000000000000) (- 8640000000000000) 0 0 0
       biblioteca))"

definition zona_cambio :: zona where
  "zona_cambio = (\<lambda>t isUTC. if t < 864000000 then 3600000 else 7200000)"



section \<open>Properties\<close>

subsection \<open>Rounding\<close>

lemma cuanto_pequeno: "n < 2 ^ 53 \<Longrightarrow> cuanto n = 1"
  by (subst cuanto.simps) simp

lemma redondear53_exacto:
  assumes "\<bar>x\<bar> < 2 ^ 53"
  shows "redondear53 x = x"
proof -
  have "nat \<bar>x\<bar> < 2 ^ 53" using assms by (simp add: nat_less_iff)
  then have "cuanto (nat \<bar>x\<bar>) = 1" by (rule cuanto_pequeno)
  then have "redondear53 x = sgn x * \<bar>x\<bar>" by (simp add: redondear53_def)
  then show ?thesis by (simp add: mult_sgn_abs)
qed

lemma producto_exacto:
  assumes "\<bar>a * b\<bar> < 2 ^ 53"
  shows "producto a b = Num (a * b)"
proof -
  have "(2::int) ^ 53 < 2 ^ 1024" by (rule power_strict_increasing) simp_all
  with assms have "a * b < 2 ^ 1024" "- (2 ^ 1024) < a * b" by linarith+
  then show ?thesis
    by (simp add: producto_def redondear53_exacto [OF assms] Let_def)
qed

lemma cuanto_grande: "2 ^ 53 \<le> n \<Longrightarrow> cuanto n = 2 * cuanto (n div 2)"
  by (subst cuanto.simps) simp

lemma cuanto_ejemplos:
  "cuanto 90071992547409910 = 16" "cuanto 45035996273704955 = 8"
  "cuanto 12959999999999999 = 2"
  by (simp_all add: cuanto_grande cuanto_pequeno)

lemma redondear53_ejemplos:
  "redondear53 90071992547409910 = 90071992547409904"
  "redondear53 45035996273704955 = 45035996273704952"
  "redondear53 (- 90071992547409910) = - 90071992547409904"
  "redondear53 (- 45035996273704955) = - 45035996273704952"
  "redondear53 12959999999999999 = 12960000000000000"
  by (simp_all add: redondear53_def cuanto_ejemplos Let_def)

subsection \<open>The calendar and the date portion of an ISO string\<close>















subsection \<open>The operations, branch by branch\<close>

lemma Date_new_valido: "valido t \<Longrightarrow> Date_new t = Some t"
  by (simp add: Date_new_def TimeClip_def)

lemma setDate_Some:
  assumes "setDate_getDate_mas z (Date_new t) n = Some v"
  shows "valido t \<and> valido v \<and> v = UTC z (LocalTime z t + n * msPerDay)"
  using assms
  by (auto simp: setDate_getDate_mas_def Date_new_def TimeClip_def split: option.splits if_splits)

lemma realizar_prestamo_rechazo:
  assumes "g < length (gestores s)" "l < length (libros s)" "u < length (usuarios s)"
    and "\<not> disponible (libros s ! l)"
  shows "realizar_prestamo z t1 t2 g l u s =
           Some (Inr None, s\<lparr>consola := consola s @ [LibroNoDisponible (titulo (libros s ! l))]\<rparr>)"
  using assms by (simp add: realizar_prestamo_def)

lemma realizar_prestamo_exito:
  assumes "g < length (gestores s)" "l < length (libros s)" "u < length (usuarios s)"
    and "disponible (libros s ! l)"
    and "setDate_getDate_mas z (Date_new t2) 14 = Some v"
    and "m = mensaje_prestamo (titulo (libros s ! l))
               (fecha_ISO v @ ascii ''T'' @ hora_ISO v @ ascii ''Z'')"
  shows "realizar_prestamo z t1 t2 g l u s =
           Some (Inr (Some (length (almacen s))),
             s\<lparr>libros := (libros s)[l := (libros s ! l)\<lparr>disponible := False\<rparr>],
               almacen := almacen s @ [Prestamo_new z t1 t2 l u],
               gestores := (gestores s)[g := (gestores s ! g)
                  \<lparr>prestamos := prestamos (gestores s ! g) @ [length (almacen s)]\<rparr>],
               consola := consola s
                  @ fst (enviar (notificador (gestores s ! g)) m (nombre (usuarios s ! u)))
                  @ [PrestamoRealizado (titulo (libros s ! l)) (nombre (usuarios s ! u))],
               enviados := enviados s
                  @ [(m, nombre (usuarios s ! u),
                      snd (enviar (notificador (gestores s ! g)) m (nombre (usuarios s ! u))))]\<rparr>)"
  using assms
  by (simp add: realizar_prestamo_def Let_def Prestamo_new_def toISOString_def split: prod.splits)

lemma realizar_prestamo_lanza:
  assumes "g < length (gestores s)" "l < length (libros s)" "u < length (usuarios s)"
    and "disponible (libros s ! l)"
    and "setDate_getDate_mas z (Date_new t2) 14 = None"
  shows "realizar_prestamo z t1 t2 g l u s =
           Some (Inl RangeError,
             s\<lparr>libros := (libros s)[l := (libros s ! l)\<lparr>disponible := False\<rparr>],
               almacen := almacen s @ [Prestamo_new z t1 t2 l u],
               gestores := (gestores s)[g := (gestores s ! g)
                  \<lparr>prestamos := prestamos (gestores s ! g) @ [length (almacen s)]\<rparr>]\<rparr>)"
  using assms
  by (simp add: realizar_prestamo_def Let_def Prestamo_new_def toISOString_def)

lemma realizar_prestamo_Some:
  assumes "realizar_prestamo z t1 t2 g l u s = Some x"
  shows "g < length (gestores s) \<and> l < length (libros s) \<and> u < length (usuarios s)"
  using assms by (auto simp: realizar_prestamo_def split: if_splits)

lemma realizar_prestamo_definido:
  assumes "g < length (gestores s)" "l < length (libros s)" "u < length (usuarios s)"
  shows "\<exists>x. realizar_prestamo z t1 t2 g l u s = Some x"
  using assms
  by (auto simp: realizar_prestamo_def Let_def split: sum.splits prod.splits)

lemma devolver_libro_repetido:
  assumes "g < length (gestores s)" "p < length (almacen s)" "devuelto (almacen s ! p)"
  shows "devolver_libro t g p s = Some (s\<lparr>consola := consola s @ [YaDevuelto]\<rparr>)"
  using assms by (simp add: devolver_libro_def)

lemma devolver_libro_abierto:
  assumes "g < length (gestores s)" "p < length (almacen s)" "\<not> devuelto (almacen s ! p)"
    and "libro (almacen s ! p) < length (libros s)" "usuario (almacen s ! p) < length (usuarios s)"
  shows "\<exists>informe. devolver_libro t g p s =
     Some (s\<lparr>almacen := (almacen s)[p := (almacen s ! p)\<lparr>devuelto := True\<rparr>],
             libros := (libros s)[libro (almacen s ! p) :=
                (libros s ! libro (almacen s ! p))\<lparr>disponible := True\<rparr>],
             consola := consola s @
               [informe, Devuelto (titulo (libros s ! libro (almacen s ! p)))
                           (nombre (usuarios s ! usuario (almacen s ! p)))]\<rparr>)"
  using assms by (simp add: devolver_libro_def Let_def) (rule exI, rule refl)

lemma devolver_libro_tarde:
  assumes "g < length (gestores s)" "p < length (almacen s)" "\<not> devuelto (almacen s ! p)"
    and "libro (almacen s ! p) < length (libros s)" "usuario (almacen s ! p) < length (usuarios s)"
    and "valido t" "fecha_devolucion (almacen s ! p) = Some b" "b < t"
  shows "devolver_libro t g p s =
     Some (s\<lparr>almacen := (almacen s)[p := (almacen s ! p)\<lparr>devuelto := True\<rparr>],
             libros := (libros s)[libro (almacen s ! p) :=
                (libros s ! libro (almacen s ! p))\<lparr>disponible := True\<rparr>],
             consola := consola s @
               [Retraso (redondear53 (t - b) div msPerDay)
                  (calcular (calculadora_multa (gestores s ! g)) (redondear53 (t - b) div msPerDay)),
                Devuelto (titulo (libros s ! libro (almacen s ! p)))
                  (nombre (usuarios s ! usuario (almacen s ! p)))]\<rparr>)"
  using assms by (simp add: devolver_libro_def Let_def msPerDay_def Date_new_valido)

lemma devolver_libro_a_tiempo:
  assumes "g < length (gestores s)" "p < length (almacen s)" "\<not> devuelto (almacen s ! p)"
    and "libro (almacen s ! p) < length (libros s)" "usuario (almacen s ! p) < length (usuarios s)"
    and "valido t" "fecha_devolucion (almacen s ! p) = Some b" "t \<le> b"
  shows "devolver_libro t g p s =
     Some (s\<lparr>almacen := (almacen s)[p := (almacen s ! p)\<lparr>devuelto := True\<rparr>],
             libros := (libros s)[libro (almacen s ! p) :=
                (libros s ! libro (almacen s ! p))\<lparr>disponible := True\<rparr>],
             consola := consola s @
               [ATiempo,
                Devuelto (titulo (libros s ! libro (almacen s ! p)))
                  (nombre (usuarios s ! usuario (almacen s ! p)))]\<rparr>)"
  using assms by (simp add: devolver_libro_def Let_def Date_new_valido)

lemma devolver_libro_Some:
  assumes "devolver_libro t g p s = Some s'"
  shows "g < length (gestores s) \<and> p < length (almacen s) \<and> devuelto (almacen s' ! p) \<and>
         length (almacen s') = length (almacen s) \<and> gestores s' = gestores s"
  using assms by (auto simp: devolver_libro_def Let_def split: if_splits)

subsection \<open>The small library, evaluated\<close>

lemma biblioteca_ejecutar:
  "ejecutar [NuevoLibro (ascii ''1984'') (ascii ''George Orwell'') (ascii ''978-0-452-28423-4''),
     NuevoUsuario (ascii ''Ana'') (ascii ''U001''), NuevoGestor MultaEstandar NotificadorEmail] estado_vacio
   = Some biblioteca"
  by (simp add: estado_vacio_def biblioteca_def)

lemma biblioteca_campos:
  "length (gestores biblioteca) = 1" "length (libros biblioteca) = 1"
  "length (usuarios biblioteca) = 1" "disponible (libros biblioteca ! 0)"
  "almacen biblioteca = []" "enviados biblioteca = []"
  "titulo (libros biblioteca ! 0) = ascii ''1984''"
  "nombre (usuarios biblioteca ! 0) = ascii ''Ana''"
  "prestamos (gestores biblioteca ! 0) = []"
  by (simp_all add: biblioteca_def Libro_new_def Usuario_new_def GestorPrestamos_new_def)

lemma vencimiento_ejemplos:
  "setDate_getDate_mas zona_utc (Date_new 1000) 14 = Some 1209601000"
  "setDate_getDate_mas zona_utc (Date_new 1001) 14 = Some 1209601001"
  "setDate_getDate_mas zona_cambio (Date_new 1000) 14 = Some 1206001000"
  "setDate_getDate_mas zona_utc (Date_new (- 8640000000000000)) 14 = Some (- 8639998790400000)"
  "setDate_getDate_mas zona_utc (Date_new 8640000000000000) 14 = None"
  "Date_new 1000 = Some 1000" "Date_new (- 8640000000000000) = Some (- 8640000000000000)"
  "Date_new 8640000000000000 = Some 8640000000000000"
  "setDate_getDate_mas zona_utc (Some 1000) 14 = Some 1209601000"
  "setDate_getDate_mas zona_utc (Some (- 8640000000000000)) 14 = Some (- 8639998790400000)"
  by (simp_all add: setDate_getDate_mas_def Date_new_def TimeClip_def valido_def UTC_def
      LocalTime_def zona_utc_def zona_cambio_def msPerDay_def)

lemma prestada_campos:
  "libros prestada = [\<lparr>titulo = ascii ''1984'', autor = ascii ''George Orwell'',
     isbn = ascii ''978-0-452-28423-4'', disponible = False\<rparr>]"
  "almacen prestada = [\<lparr>libro = 0, usuario = 0, fecha_prestamo = Some 1000,
     fecha_devolucion = Some 1209601000, devuelto = False\<rparr>]"
  "length (gestores prestada) = 1"
  "prestamos (gestores prestada ! 0) = [0]"
  "calculadora_multa (gestores prestada ! 0) = MultaEstandar"
  "usuarios prestada = [\<lparr>nombre = ascii ''Ana'', id_usuario = ascii ''U001''\<rparr>]"
  unfolding prestada_def
  by (simp_all add: realizar_prestamo_exito [OF _ _ _ _ vencimiento_ejemplos(1) refl]
      biblioteca_campos Prestamo_new_def vencimiento_ejemplos)
     (simp_all add: biblioteca_def Libro_new_def Usuario_new_def GestorPrestamos_new_def)

lemma prestada_antigua_campos:
  "libros prestada_antigua = [\<lparr>titulo = ascii ''1984'', autor = ascii ''George Orwell'',
     isbn = ascii ''978-0-452-28423-4'', disponible = False\<rparr>]"
  "almacen prestada_antigua = [\<lparr>libro = 0, usuario = 0,
     fecha_prestamo = Some (- 8640000000000000),
     fecha_devolucion = Some (- 8639998790400000), devuelto = False\<rparr>]"
  "length (gestores prestada_antigua) = 1"
  "calculadora_multa (gestores prestada_antigua ! 0) = MultaEstandar"
  "usuarios prestada_antigua = [\<lparr>nombre = ascii ''Ana'', id_usuario = ascii ''U001''\<rparr>]"
  unfolding prestada_antigua_def
  by (simp_all add: realizar_prestamo_exito [OF _ _ _ _ vencimiento_ejemplos(4) refl]
      biblioteca_campos Prestamo_new_def vencimiento_ejemplos)
     (simp_all add: biblioteca_def Libro_new_def Usuario_new_def GestorPrestamos_new_def)

lemma devolver_prestada: "devolver_libro 5000 0 0 prestada = Some devuelta"
  by (simp add: devuelta_def devolver_libro_def prestada_campos Let_def)

lemma devuelta_campos:
  "libros devuelta = [\<lparr>titulo = ascii ''1984'', autor = ascii ''George Orwell'',
     isbn = ascii ''978-0-452-28423-4'', disponible = True\<rparr>]"
  "almacen devuelta = [\<lparr>libro = 0, usuario = 0, fecha_prestamo = Some 1000,
     fecha_devolucion = Some 1209601000, devuelto = True\<rparr>]"
  "gestores devuelta = gestores prestada"
  "usuarios devuelta = usuarios prestada"
  by (simp_all add: devuelta_def devolver_libro_def prestada_campos Let_def)

lemma paso_prestar_biblioteca:
  "paso (RealizarPrestamo zona_utc 1000 1000 0 0 0) biblioteca = Some prestada"
  unfolding prestada_def
  by (simp add: realizar_prestamo_exito [OF _ _ _ _ vencimiento_ejemplos(1) refl] biblioteca_campos)

lemma recien_construido_biblioteca: "recien_construido biblioteca"
  by (simp add: recien_construido_def biblioteca_def Libro_new_def GestorPrestamos_new_def)


subsection \<open>Consistency is kept by every call\<close>

lemma consistente_inicial: "recien_construido s \<Longrightarrow> consistente s"
  by (auto simp: recien_construido_def consistente_def list_all_length)

lemma consistente_NuevoLibro:
  "consistente s \<Longrightarrow> consistente (s\<lparr>libros := libros s @ [Libro_new t a i]\<rparr>)"
  unfolding consistente_def
  by (auto simp: nth_append Libro_new_def less_Suc_eq)

lemma consistente_NuevoUsuario:
  "consistente s \<Longrightarrow> consistente (s\<lparr>usuarios := usuarios s @ [Usuario_new n i]\<rparr>)"
  unfolding consistente_def
  by (auto simp: nth_append less_Suc_eq)

lemma consistente_NuevoGestor:
  "consistente s \<Longrightarrow> consistente (s\<lparr>gestores := gestores s @ [GestorPrestamos_new c n]\<rparr>)"
  unfolding consistente_def
  by (auto simp: nth_append less_Suc_eq GestorPrestamos_new_def)

lemma consistente_consola:
  "consistente (s\<lparr>consola := c\<rparr>) = consistente s"
  by (simp add: consistente_def)

lemma consistente_realizar_prestamo:
  assumes c: "consistente s"
    and g: "g < length (gestores s)" and l: "l < length (libros s)" and u: "u < length (usuarios s)"
    and d: "disponible (libros s ! l)"
  shows "consistente
     (s\<lparr>libros := (libros s)[l := (libros s ! l)\<lparr>disponible := False\<rparr>],
        almacen := almacen s @ [Prestamo_new z t1 t2 l u],
        gestores := (gestores s)[g := (gestores s ! g)
           \<lparr>prestamos := prestamos (gestores s ! g) @ [length (almacen s)]\<rparr>],
        consola := co, enviados := en\<rparr>)"
    (is "consistente ?s'")
proof -
  have libres: "\<forall>p < length (almacen s). libro (almacen s ! p) = l \<longrightarrow> devuelto (almacen s ! p)"
    using c l d by (simp add: consistente_def)
  have c1: "\<forall>p < length (almacen ?s').
        libro (almacen ?s' ! p) < length (libros ?s') \<and>
        usuario (almacen ?s' ! p) < length (usuarios ?s')"
    using c l u by (auto simp: consistente_def nth_append less_Suc_eq Prestamo_new_def)
  have c2: "\<forall>k < length (libros ?s').
        disponible (libros ?s' ! k) \<longleftrightarrow>
        (\<forall>p < length (almacen ?s'). libro (almacen ?s' ! p) = k \<longrightarrow> devuelto (almacen ?s' ! p))"
  proof (intro allI impI)
    fix k assume k: "k < length (libros ?s')"
    show "disponible (libros ?s' ! k) \<longleftrightarrow>
        (\<forall>p < length (almacen ?s'). libro (almacen ?s' ! p) = k \<longrightarrow> devuelto (almacen ?s' ! p))"
    proof (cases "k = l")
      case True
      then show ?thesis using l by (auto simp: Prestamo_new_def)
    next
      case False
      have "disponible (libros s ! k) \<longleftrightarrow>
          (\<forall>p < length (almacen s). libro (almacen s ! p) = k \<longrightarrow> devuelto (almacen s ! p))"
        using c k by (simp add: consistente_def)
      with False show ?thesis
        by (auto simp: nth_append less_Suc_eq Prestamo_new_def)
    qed
  qed
  have c3: "\<forall>p < length (almacen ?s'). \<forall>q < length (almacen ?s').
        \<not> devuelto (almacen ?s' ! p) \<and> \<not> devuelto (almacen ?s' ! q) \<and>
        libro (almacen ?s' ! p) = libro (almacen ?s' ! q) \<longrightarrow> p = q"
    using c libres
    by (auto simp: consistente_def nth_append less_Suc_eq Prestamo_new_def)
  have c4: "\<forall>p < length (almacen ?s'). \<exists>h < length (gestores ?s').
        p \<in> set (prestamos (gestores ?s' ! h))"
  proof (intro allI impI)
    fix p assume p: "p < length (almacen ?s')"
    show "\<exists>h < length (gestores ?s'). p \<in> set (prestamos (gestores ?s' ! h))"
    proof (cases "p = length (almacen s)")
      case True
      with g show ?thesis by (auto intro!: exI [of _ g])
    next
      case False
      with p have "p < length (almacen s)" by simp
      then obtain h where h: "h < length (gestores s)" "p \<in> set (prestamos (gestores s ! h))"
        using c by (auto simp: consistente_def)
      with g show ?thesis
        by (auto intro!: exI [of _ h] simp: nth_list_update)
    qed
  qed
  have c5: "\<forall>h < length (gestores ?s'). \<forall>p \<in> set (prestamos (gestores ?s' ! h)).
        p < length (almacen ?s')"
    using c g by (auto simp: consistente_def nth_list_update less_Suc_eq)
  show ?thesis
    unfolding consistente_def using c1 c2 c3 c4 c5 by blast
qed

lemma consistente_devolver_libro:
  assumes c: "consistente s"
    and p: "p < length (almacen s)" and a: "\<not> devuelto (almacen s ! p)"
  shows "consistente
     (s\<lparr>almacen := (almacen s)[p := (almacen s ! p)\<lparr>devuelto := True\<rparr>],
        libros := (libros s)[libro (almacen s ! p) :=
           (libros s ! libro (almacen s ! p))\<lparr>disponible := True\<rparr>],
        consola := co\<rparr>)"
    (is "consistente ?s'")
proof -
  let ?b = "libro (almacen s ! p)"
  have b: "?b < length (libros s)"
    using c p by (simp add: consistente_def)
  have unico: "\<forall>q < length (almacen s). q \<noteq> p \<and> libro (almacen s ! q) = ?b \<longrightarrow> devuelto (almacen s ! q)"
    using c p a unfolding consistente_def by metis
  have c1: "\<forall>q < length (almacen ?s').
        libro (almacen ?s' ! q) < length (libros ?s') \<and>
        usuario (almacen ?s' ! q) < length (usuarios ?s')"
    using c p by (auto simp: consistente_def nth_list_update)
  have c2: "\<forall>k < length (libros ?s').
        disponible (libros ?s' ! k) \<longleftrightarrow>
        (\<forall>q < length (almacen ?s'). libro (almacen ?s' ! q) = k \<longrightarrow> devuelto (almacen ?s' ! q))"
  proof (intro allI impI)
    fix k assume k: "k < length (libros ?s')"
    show "disponible (libros ?s' ! k) \<longleftrightarrow>
        (\<forall>q < length (almacen ?s'). libro (almacen ?s' ! q) = k \<longrightarrow> devuelto (almacen ?s' ! q))"
    proof (cases "k = ?b")
      case True
      then show ?thesis using b p unico by (auto simp: nth_list_update)
    next
      case False
      have "disponible (libros s ! k) \<longleftrightarrow>
          (\<forall>q < length (almacen s). libro (almacen s ! q) = k \<longrightarrow> devuelto (almacen s ! q))"
        using c k by (simp add: consistente_def)
      with False p show ?thesis
        by (auto simp: nth_list_update)
    qed
  qed
  have c3: "\<forall>q < length (almacen ?s'). \<forall>r < length (almacen ?s').
        \<not> devuelto (almacen ?s' ! q) \<and> \<not> devuelto (almacen ?s' ! r) \<and>
        libro (almacen ?s' ! q) = libro (almacen ?s' ! r) \<longrightarrow> q = r"
    using c p
    by (auto simp: consistente_def nth_list_update split: if_splits)
  have c4: "\<forall>q < length (almacen ?s'). \<exists>h < length (gestores ?s').
        q \<in> set (prestamos (gestores ?s' ! h))"
    using c by (simp add: consistente_def)
  have c5: "\<forall>h < length (gestores ?s'). \<forall>q \<in> set (prestamos (gestores ?s' ! h)).
        q < length (almacen ?s')"
    using c by (simp add: consistente_def)
  show ?thesis
    unfolding consistente_def using c1 c2 c3 c4 c5 by blast
qed

lemma consistente_paso:
  assumes "consistente s" "paso c s = Some s'"
  shows "consistente s'"
proof (cases c)
  case (NuevoLibro t a i)
  with assms show ?thesis by (auto simp: consistente_NuevoLibro)
next
  case (NuevoUsuario n i)
  with assms show ?thesis by (auto simp: consistente_NuevoUsuario)
next
  case (NuevoGestor ca n)
  with assms show ?thesis by (auto simp: consistente_NuevoGestor)
next
  case (RealizarPrestamo z t1 t2 g l u)
  with assms(2) obtain r where r: "realizar_prestamo z t1 t2 g l u s = Some (r, s')"
    by auto
  note v = realizar_prestamo_Some [OF r, THEN conjunct1]
    realizar_prestamo_Some [OF r, THEN conjunct2, THEN conjunct1]
    realizar_prestamo_Some [OF r, THEN conjunct2, THEN conjunct2]
  show ?thesis
  proof (cases "disponible (libros s ! l)")
    case True
    show ?thesis
    proof (cases "setDate_getDate_mas z (Date_new t2) 14")
      case None
      have "consistente
         (s\<lparr>libros := (libros s)[l := (libros s ! l)\<lparr>disponible := False\<rparr>],
            almacen := almacen s @ [Prestamo_new z t1 t2 l u],
            gestores := (gestores s)[g := (gestores s ! g)
               \<lparr>prestamos := prestamos (gestores s ! g) @ [length (almacen s)]\<rparr>]\<rparr>)"
        using consistente_realizar_prestamo [OF assms(1) v True,
            where z = z and ?t1.0 = t1 and ?t2.0 = t2 and co = "consola s" and en = "enviados s"]
        by simp
      with r show ?thesis
        unfolding realizar_prestamo_lanza [OF v True None] by auto
    next
      case (Some w)
      from r show ?thesis
        unfolding realizar_prestamo_exito [OF v True Some refl]
        using consistente_realizar_prestamo [OF assms(1) v True] by auto
    qed
  next
    case False
    from r show ?thesis
      unfolding realizar_prestamo_rechazo [OF v False]
      using assms(1) by (auto simp: consistente_consola)
  qed
next
  case (DevolverLibro t g p)
  with assms(2) have r: "devolver_libro t g p s = Some s'" by simp
  then have v: "g < length (gestores s)" "p < length (almacen s)"
    by (auto simp: devolver_libro_def split: if_splits)
  show ?thesis
  proof (cases "devuelto (almacen s ! p)")
    case True
    from r show ?thesis
      unfolding devolver_libro_repetido [OF v True]
      using assms(1) by (auto simp: consistente_consola)
  next
    case False
    have w: "libro (almacen s ! p) < length (libros s)" "usuario (almacen s ! p) < length (usuarios s)"
      using assms(1) v by (simp_all add: consistente_def)
    from devolver_libro_abierto [OF v False w, of t] r
    show ?thesis
      using consistente_devolver_libro [OF assms(1) v(2) False] by auto
  qed
qed

lemma consistente_ejecutar:
  "consistente s \<Longrightarrow> ejecutar cs s = Some s' \<Longrightarrow> consistente s'"
proof (induction cs arbitrary: s)
  case Nil
  then show ?case by simp
next
  case (Cons c cs)
  then show ?case
    by (auto split: option.splits dest: consistente_paso)
qed

subsection \<open>The life of a loan\<close>

lemma paso_devuelto:
  assumes "paso c s = Some s'" "p < length (almacen s)"
  shows "p < length (almacen s') \<and>
         (devuelto (almacen s ! p) \<longrightarrow> devuelto (almacen s' ! p)) \<and>
         (\<not> devuelto (almacen s ! p) \<and> devuelto (almacen s' ! p) \<longrightarrow> (\<exists>t g. c = DevolverLibro t g p))"
proof (cases c)
  case (RealizarPrestamo z t1 t2 g l u)
  with assms show ?thesis
    by (auto simp: realizar_prestamo_def Let_def nth_append
        split: if_splits prod.splits sum.splits)
next
  case (DevolverLibro t g q)
  with assms show ?thesis
    by (auto simp: devolver_libro_def Let_def nth_list_update split: if_splits)
qed (use assms in auto)

subsection \<open>Fine calculators\<close>

text \<open>
  C5, as the specification states it, fails: the product is a double, and for
  \<open>d = 2^53 - 1\<close> days the standard calculator returns 90071992547409904, not \<open>10 * d\<close>,
  and the student calculator 45035996273704952, not \<open>5 * d\<close>.
\<close>

theorem calcular_redondea:
  "(0::int) \<le> 9007199254740991 \<and>
   calcular MultaEstandar 9007199254740991 = Num 90071992547409904 \<and>
   (10::int) * 9007199254740991 = 90071992547409910 \<and>
   calcular MultaEstudiante 9007199254740991 = Num 45035996273704952 \<and>
   (5::int) * 9007199254740991 = 45035996273704955"
  by (simp add: MultaEstandar_def MultaEstudiante_def producto_def redondear53_ejemplos Let_def)

text \<open>
  C5, amended. For every number of days \<open>d \<ge> 0\<close> with \<open>10 * d < 2^53\<close>, the standard
  calculator returns \<open>10 * d\<close>, the student calculator \<open>5 * d\<close> and the VIP calculator \<open>0\<close>;
  none of the amounts is negative, and all three return \<open>0\<close> for \<open>0\<close> days. A calculator is
  a function of the number of days alone: it reads and changes no state.
\<close>

theorem calcular_variantes:
  assumes "0 \<le> d" "10 * d < 2 ^ 53"
  shows "calcular MultaEstandar d = Num (10 * d) \<and> calcular MultaEstudiante d = Num (5 * d) \<and>
     calcular MultaVIP d = Num 0 \<and> 0 \<le> 10 * d \<and> 0 \<le> 5 * d \<and>
     calcular MultaEstandar 0 = Num 0 \<and> calcular MultaEstudiante 0 = Num 0 \<and>
     calcular MultaVIP 0 = Num 0"
proof -
  have a: "\<bar>d * 10\<bar> < 2 ^ 53" "\<bar>d * 5\<bar> < 2 ^ 53" using assms by simp_all
  have z: "\<bar>0 * (10::int)\<bar> < 2 ^ 53" "\<bar>0 * (5::int)\<bar> < 2 ^ 53" by simp_all
  show ?thesis
    using assms(1) producto_exacto [OF a(1)] producto_exacto [OF a(2)]
      producto_exacto [OF z(1)] producto_exacto [OF z(2)]
    by (simp add: MultaEstandar_def MultaEstudiante_def MultaVIP_def mult.commute)
qed

theorem calcular_variantes_witness:
  "(0::int) \<le> 3 \<and> (10::int) * 3 < 2 ^ 53 \<and>
   calcular MultaEstandar 3 = Num 30 \<and> calcular MultaEstudiante 3 = Num 15 \<and>
   calcular MultaVIP 3 = Num 0"
  using calcular_variantes [of 3] by simp

text \<open>
  C10, as the specification states it, fails for the same reason: for \<open>d = - (2^53 - 1)\<close>
  the standard calculator returns -90071992547409904 and the student calculator
  -45035996273704952.
\<close>

theorem calcular_redondea_negativos:
  "calcular MultaEstandar (- 9007199254740991) = Num (- 90071992547409904) \<and>
   (10::int) * (- 9007199254740991) = - 90071992547409910 \<and>
   calcular MultaEstudiante (- 9007199254740991) = Num (- 45035996273704952) \<and>
   (5::int) * (- 9007199254740991) = - 45035996273704955"
  by (simp add: MultaEstandar_def MultaEstudiante_def producto_def redondear53_ejemplos Let_def)

text \<open>
  C10, amended. The calculators validate nothing: for every integer \<open>d\<close> with
  \<open>\<bar>10 * d\<bar> < 2^53\<close>, also a negative one, the standard calculator returns \<open>10 * d\<close> and
  the student calculator \<open>5 * d\<close>, both negative when \<open>d\<close> is, and the VIP calculator
  returns \<open>0\<close>.
\<close>

theorem calcular_sin_validacion:
  assumes "\<bar>10 * d\<bar> < 2 ^ 53"
  shows "calcular MultaEstandar d = Num (10 * d) \<and> calcular MultaEstudiante d = Num (5 * d) \<and>
     calcular MultaVIP d = Num 0 \<and>
     (d < 0 \<longrightarrow> (\<exists>a b. calcular MultaEstandar d = Num a \<and> a < 0 \<and>
                       calcular MultaEstudiante d = Num b \<and> b < 0))"
proof -
  have a: "\<bar>d * 10\<bar> < 2 ^ 53" "\<bar>d * 5\<bar> < 2 ^ 53" using assms by (simp_all add: abs_mult)
  show ?thesis
    using producto_exacto [OF a(1)] producto_exacto [OF a(2)]
    by (simp add: MultaEstandar_def MultaEstudiante_def MultaVIP_def mult.commute)
qed

theorem calcular_sin_validacion_witness:
  "\<bar>10 * (- 2::int)\<bar> < 2 ^ 53 \<and> (- 2::int) < 0 \<and>
   calcular MultaEstandar (- 2) = Num (- 20) \<and> calcular MultaEstudiante (- 2) = Num (- 10) \<and>
   calcular MultaVIP (- 2) = Num 0"
  using calcular_sin_validacion [of "- 2"] by simp

subsection \<open>Lending a book that is on loan\<close>

text \<open>
  C3. When the book is not available, \<open>realizar_prestamo\<close> returns \<^verbatim>\<open>null\<close> and changes
  no object: the stores of books, users, loans and managers (with their loan lists) are the
  same, no call of \<^verbatim>\<open>enviar\<close> is made, and the console gains the one line that says the
  book is not available.
\<close>

theorem realizar_prestamo_no_disponible:
  assumes "g < length (gestores s)" "l < length (libros s)" "u < length (usuarios s)"
    and "\<not> disponible (libros s ! l)"
  shows "\<exists>s'. realizar_prestamo z t1 t2 g l u s = Some (Inr None, s') \<and>
           libros s' = libros s \<and> usuarios s' = usuarios s \<and> almacen s' = almacen s \<and>
           gestores s' = gestores s \<and> enviados s' = enviados s \<and>
           consola s' = consola s @ [LibroNoDisponible (titulo (libros s ! l))]"
  using realizar_prestamo_rechazo [OF assms] by simp

theorem realizar_prestamo_no_disponible_witness:
  "0 < length (gestores prestada) \<and> 0 < length (libros prestada) \<and>
   0 < length (usuarios prestada) \<and> \<not> disponible (libros prestada ! 0) \<and>
   (\<exists>s'. realizar_prestamo zona_utc 2000 2000 0 0 0 prestada = Some (Inr None, s') \<and>
      libros s' = libros prestada \<and> almacen s' = almacen prestada \<and>
      gestores s' = gestores prestada \<and> enviados s' = enviados prestada)"
  using realizar_prestamo_no_disponible [of 0 prestada 0 0 zona_utc 2000 2000]
  by (auto simp: prestada_campos)

subsection \<open>Returning a loan twice\<close>

text \<open>
  C4. \<open>devolver_libro\<close> on a loan that is already returned changes no object: the loan,
  its book, the users, the managers and their loan lists are the same, and the console gains
  the one line that says so. Hence, after any call of \<open>devolver_libro\<close> on a loan, every
  further call on that loan, by any manager and at any time, changes nothing but the console.
\<close>

theorem devolver_libro_ya_devuelto:
  "(g < length (gestores s) \<and> p < length (almacen s) \<and> devuelto (almacen s ! p) \<longrightarrow>
      (\<exists>s'. devolver_libro t g p s = Some s' \<and>
         almacen s' = almacen s \<and> libros s' = libros s \<and> usuarios s' = usuarios s \<and>
         gestores s' = gestores s \<and> enviados s' = enviados s \<and>
         consola s' = consola s @ [YaDevuelto])) \<and>
   (devolver_libro t g p s = Some s1 \<and> g' < length (gestores s1) \<longrightarrow>
      devolver_libro t' g' p s1 = Some (s1\<lparr>consola := consola s1 @ [YaDevuelto]\<rparr>))"
proof (intro conjI impI)
  assume "g < length (gestores s) \<and> p < length (almacen s) \<and> devuelto (almacen s ! p)"
  then have "devolver_libro t g p s = Some (s\<lparr>consola := consola s @ [YaDevuelto]\<rparr>)"
    by (simp add: devolver_libro_repetido)
  then show "\<exists>s'. devolver_libro t g p s = Some s' \<and>
         almacen s' = almacen s \<and> libros s' = libros s \<and> usuarios s' = usuarios s \<and>
         gestores s' = gestores s \<and> enviados s' = enviados s \<and>
         consola s' = consola s @ [YaDevuelto]"
    by simp
next
  assume a: "devolver_libro t g p s = Some s1 \<and> g' < length (gestores s1)"
  then have "p < length (almacen s1)" "devuelto (almacen s1 ! p)"
    using devolver_libro_Some [of t g p s s1] by simp_all
  with a show "devolver_libro t' g' p s1 = Some (s1\<lparr>consola := consola s1 @ [YaDevuelto]\<rparr>)"
    by (simp add: devolver_libro_repetido)
qed

theorem devolver_libro_ya_devuelto_witness:
  "0 < length (gestores devuelta) \<and> 0 < length (almacen devuelta) \<and>
   devuelto (almacen devuelta ! 0) \<and>
   (\<exists>s'. devolver_libro 6000 0 0 devuelta = Some s' \<and> almacen s' = almacen devuelta \<and>
      libros s' = libros devuelta \<and> gestores s' = gestores devuelta) \<and>
   devolver_libro 5000 0 0 prestada = Some devuelta \<and>
   devolver_libro 7000 0 0 devuelta = Some (devuelta\<lparr>consola := consola devuelta @ [YaDevuelto]\<rparr>)"
  using devolver_libro_ya_devuelto [of 0 devuelta 0 6000 devuelta 0 6000]
    devolver_libro_ya_devuelto [of 0 prestada 0 5000 devuelta 0 7000]
  by (auto simp: devuelta_campos prestada_campos devolver_prestada)

subsection \<open>Returning a loan late\<close>

text \<open>
  C2, as the specification states it, fails: a loan returned one millisecond after its due
  date is reported with a delay of 0 days (and a fine of 0), although the clock is strictly
  past the due date.
\<close>

theorem devolver_libro_retraso_cero:
  "fecha_devolucion (almacen prestada ! 0) = Some 1209601000 \<and> (1209601000::int) < 1209601001 \<and>
   \<not> devuelto (almacen prestada ! 0) \<and>
   devolver_libro 1209601001 0 0 prestada =
     Some (prestada\<lparr>almacen := (almacen prestada)[0 := (almacen prestada ! 0)\<lparr>devuelto := True\<rparr>],
             libros := (libros prestada)[0 := (libros prestada ! 0)\<lparr>disponible := True\<rparr>],
             consola := consola prestada @
               [Retraso 0 (Num 0), Devuelto (ascii ''1984'') (ascii ''Ana'')]\<rparr>)"
proof -
  have v: "valido 1209601001" by (simp add: valido_def)
  have r: "redondear53 (1209601001 - 1209601000) div msPerDay = 0"
    by (simp add: redondear53_exacto msPerDay_def)
  have m: "calcular MultaEstandar 0 = Num 0"
    by (simp add: MultaEstandar_def producto_exacto)
  have "devolver_libro 1209601001 0 0 prestada =
     Some (prestada\<lparr>almacen := (almacen prestada)[0 := (almacen prestada ! 0)\<lparr>devuelto := True\<rparr>],
             libros := (libros prestada)[libro (almacen prestada ! 0) :=
               (libros prestada ! libro (almacen prestada ! 0))\<lparr>disponible := True\<rparr>],
             consola := consola prestada @
               [Retraso (redondear53 (1209601001 - 1209601000) div msPerDay)
                  (calcular (calculadora_multa (gestores prestada ! 0))
                     (redondear53 (1209601001 - 1209601000) div msPerDay)),
                Devuelto (titulo (libros prestada ! libro (almacen prestada ! 0)))
                  (nombre (usuarios prestada ! usuario (almacen prestada ! 0)))]\<rparr>)"
    by (rule devolver_libro_tarde [OF _ _ _ _ _ v]) (simp_all add: prestada_campos)
  then show ?thesis
    unfolding r by (simp add: prestada_campos m)
qed

text \<open>
  C2, amended. When an open loan with a valid due date is returned at a valid time strictly
  after it, less than \<open>2^53\<close> milliseconds after it, the number of days of delay is the whole number
  of days in the elapsed time: it is never negative, and it is positive exactly when at
  least one day has elapsed. The fine is the calculator of the manager applied to that
  number, and both are reported.
\<close>

theorem devolver_libro_con_retraso:
  assumes "g < length (gestores s)" "p < length (almacen s)" "\<not> devuelto (almacen s ! p)"
    and "libro (almacen s ! p) < length (libros s)" "usuario (almacen s ! p) < length (usuarios s)"
    and "valido t" "fecha_devolucion (almacen s ! p) = Some b" "valido b"
    and "b < t" "t - b < 2 ^ 53"
  shows "\<exists>s' d. devolver_libro t g p s = Some s' \<and>
           d = (t - b) div msPerDay \<and>
           0 \<le> d \<and> (0 < d \<longleftrightarrow> msPerDay \<le> t - b) \<and>
           consola s' = consola s @
             [Retraso d (calcular (calculadora_multa (gestores s ! g)) d),
              Devuelto (titulo (libros s ! libro (almacen s ! p)))
                (nombre (usuarios s ! usuario (almacen s ! p)))]"
proof -
  have "\<bar>t - b\<bar> < 2 ^ 53" using assms(9,10) by simp
  then have r: "redondear53 (t - b) = t - b" by (rule redondear53_exacto)
  have "0 \<le> (t - b) div msPerDay"
    using assms(9) by (simp add: msPerDay_def pos_imp_zdiv_nonneg_iff)
  moreover have "0 < (t - b) div msPerDay \<longleftrightarrow> msPerDay \<le> t - b"
    by (simp add: msPerDay_def pos_imp_zdiv_pos_iff)
  ultimately show ?thesis
    by (simp add: devolver_libro_tarde [OF assms(1-7) assms(9)] r)
qed

theorem devolver_libro_con_retraso_witness:
  "0 < length (gestores prestada) \<and> 0 < length (almacen prestada) \<and>
   \<not> devuelto (almacen prestada ! 0) \<and> valido 1468801000 \<and>
   fecha_devolucion (almacen prestada ! 0) = Some 1209601000 \<and> valido 1209601000 \<and>
   (1209601000::int) < 1468801000 \<and> (1468801000::int) - 1209601000 < 2 ^ 53 \<and>
   (\<exists>s'. devolver_libro 1468801000 0 0 prestada = Some s' \<and>
      consola s' = consola prestada @
        [Retraso 3 (Num 30), Devuelto (ascii ''1984'') (ascii ''Ana'')])"
proof -
  have m: "calcular MultaEstandar 3 = Num 30"
    by (simp add: MultaEstandar_def producto_exacto)
  have v: "valido 1468801000" "valido 1209601000" by (simp_all add: valido_def)
  from devolver_libro_con_retraso [of 0 prestada 0 1468801000 1209601000] v m
  show ?thesis
    by (auto simp: prestada_campos msPerDay_def)
qed

text \<open>
  C6, as the specification states it, fails: the difference of the two time values is a
  double. For the book lent at the earliest time value and returned at time value
  4320001209599999, the elapsed 12959999999999999 milliseconds hold 149999999 whole days,
  but the difference rounds to 12960000000000000 and the report says 150000000 days.
\<close>

theorem dias_retraso_redondeados:
  "valido 4320001209599999 \<and> valido (- 8639998790400000) \<and>
   fecha_devolucion (almacen prestada_antigua ! 0) = Some (- 8639998790400000) \<and>
   \<not> devuelto (almacen prestada_antigua ! 0) \<and>
   max 0 ((4320001209599999 - (- 8639998790400000)) div msPerDay) = 149999999 \<and>
   devolver_libro 4320001209599999 0 0 prestada_antigua =
     Some (prestada_antigua
            \<lparr>almacen := (almacen prestada_antigua)[0 := (almacen prestada_antigua ! 0)\<lparr>devuelto := True\<rparr>],
             libros := (libros prestada_antigua)[0 := (libros prestada_antigua ! 0)\<lparr>disponible := True\<rparr>],
             consola := consola prestada_antigua @
               [Retraso 150000000 (Num 1500000000), Devuelto (ascii ''1984'') (ascii ''Ana'')]\<rparr>)"
proof -
  have v: "valido 4320001209599999" by (simp add: valido_def)
  have r: "redondear53 (4320001209599999 - (- 8639998790400000)) div msPerDay = 150000000"
    by (simp add: redondear53_ejemplos msPerDay_def)
  have m: "calcular MultaEstandar 150000000 = Num 1500000000"
    by (simp add: MultaEstandar_def producto_exacto)
  have "devolver_libro 4320001209599999 0 0 prestada_antigua =
     Some (prestada_antigua
            \<lparr>almacen := (almacen prestada_antigua)[0 := (almacen prestada_antigua ! 0)\<lparr>devuelto := True\<rparr>],
             libros := (libros prestada_antigua)[libro (almacen prestada_antigua ! 0) :=
               (libros prestada_antigua ! libro (almacen prestada_antigua ! 0))\<lparr>disponible := True\<rparr>],
             consola := consola prestada_antigua @
               [Retraso (redondear53 (4320001209599999 - (- 8639998790400000)) div msPerDay)
                  (calcular (calculadora_multa (gestores prestada_antigua ! 0))
                     (redondear53 (4320001209599999 - (- 8639998790400000)) div msPerDay)),
                Devuelto (titulo (libros prestada_antigua ! libro (almacen prestada_antigua ! 0)))
                  (nombre (usuarios prestada_antigua ! usuario (almacen prestada_antigua ! 0)))]\<rparr>)"
    by (rule devolver_libro_tarde [OF _ _ _ _ _ v]) (simp_all add: prestada_antigua_campos)
  then show ?thesis
    unfolding r by (simp add: prestada_antigua_campos m v msPerDay_def) (simp add: valido_def)
qed

text \<open>
  C6, amended. For an open loan with a valid due date, returned at a valid time less than
  \<open>2^53\<close> milliseconds after it, the number of days of delay is \<open>max 0 (floor (elapsed / day))\<close>:
  past the due date the report carries that number, which is the count of whole days
  contained in the elapsed time (nothing is rounded up); up to the due date the value is 0
  and the return is reported as on time.
\<close>

theorem dias_retraso_truncados:
  assumes "g < length (gestores s)" "p < length (almacen s)" "\<not> devuelto (almacen s ! p)"
    and "libro (almacen s ! p) < length (libros s)" "usuario (almacen s ! p) < length (usuarios s)"
    and "valido t" "fecha_devolucion (almacen s ! p) = Some b" "valido b"
    and "t - b < 2 ^ 53"
  shows "\<exists>s' d. devolver_libro t g p s = Some s' \<and>
           d = max 0 ((t - b) div msPerDay) \<and>
           (if b < t
            then d * msPerDay \<le> t - b \<and> t - b < (d + 1) * msPerDay \<and>
                 consola s' = consola s @
                   [Retraso d (calcular (calculadora_multa (gestores s ! g)) d),
                    Devuelto (titulo (libros s ! libro (almacen s ! p)))
                      (nombre (usuarios s ! usuario (almacen s ! p)))]
            else d = 0 \<and>
                 consola s' = consola s @
                   [ATiempo,
                    Devuelto (titulo (libros s ! libro (almacen s ! p)))
                      (nombre (usuarios s ! usuario (almacen s ! p)))])"
proof (cases "b < t")
  case True
  let ?e = "t - b"
  have "\<bar>?e\<bar> < 2 ^ 53" using True assms(9) by simp
  then have r: "redondear53 ?e = ?e" by (rule redondear53_exacto)
  have pos: "0 \<le> ?e div msPerDay"
    using True by (simp add: msPerDay_def pos_imp_zdiv_nonneg_iff)
  have "?e div msPerDay * msPerDay \<le> ?e"
    by (simp add: msPerDay_def)
  moreover have "?e < (?e div msPerDay + 1) * msPerDay"
    using div_mult_mod_eq [of ?e msPerDay] pos_mod_bound [of msPerDay ?e]
    by (simp add: msPerDay_def algebra_simps)
  ultimately show ?thesis
    using True pos by (simp add: devolver_libro_tarde [OF assms(1-7) True] r max_def)
next
  case False
  then have le: "t \<le> b" by simp
  then have "(t - b) div msPerDay \<le> 0"
    by (simp add: msPerDay_def div_nonpos_pos_le0)
  with False show ?thesis
    by (simp add: devolver_libro_a_tiempo [OF assms(1-7) le] max_def)
qed

theorem dias_retraso_truncados_witness:
  "0 < length (gestores prestada) \<and> 0 < length (almacen prestada) \<and>
   \<not> devuelto (almacen prestada ! 0) \<and> valido 1468800999 \<and>
   fecha_devolucion (almacen prestada ! 0) = Some 1209601000 \<and> valido 1209601000 \<and>
   (1468800999::int) - 1209601000 < 2 ^ 53 \<and>
   (\<exists>s'. devolver_libro 1468800999 0 0 prestada = Some s' \<and>
      consola s' = consola prestada @
        [Retraso 2 (Num 20), Devuelto (ascii ''1984'') (ascii ''Ana'')])"
proof -
  have m: "calcular MultaEstandar 2 = Num 20"
    by (simp add: MultaEstandar_def producto_exacto)
  have v: "valido 1468800999" "valido 1209601000" by (simp_all add: valido_def)
  from dias_retraso_truncados [of 0 prestada 0 1468800999 1209601000] v m
  show ?thesis
    by (auto simp: prestada_campos msPerDay_def)
qed

subsection \<open>Lending an available book\<close>

text \<open>
  C7, as the specification states it, fails. Where the clocks move forward by an hour
  within the fourteen days, the due date is 14 days less one hour after the loan date. When
  the clock ticks between the two readings of the constructor, the due date is 14 days
  after the second reading, not after the loan date. And at the last time value there is,
  the due date is no valid date: the call throws \<^verbatim>\<open>RangeError\<close> and returns no loan,
  with the book already unavailable and the loan already stored.
\<close>

theorem fecha_devolucion_no_14_dias:
  "disponible (libros biblioteca ! 0) \<and>
   realizar_prestamo zona_cambio 1000 1000 0 0 0 biblioteca \<noteq> None \<and>
   fecha_prestamo (almacen (snd (the (realizar_prestamo zona_cambio 1000 1000 0 0 0 biblioteca))) ! 0)
     = Some 1000 \<and>
   fecha_devolucion (almacen (snd (the (realizar_prestamo zona_cambio 1000 1000 0 0 0 biblioteca))) ! 0)
     = Some 1206001000 \<and>
   fecha_prestamo (almacen (snd (the (realizar_prestamo zona_utc 1000 1001 0 0 0 biblioteca))) ! 0)
     = Some 1000 \<and>
   fecha_devolucion (almacen (snd (the (realizar_prestamo zona_utc 1000 1001 0 0 0 biblioteca))) ! 0)
     = Some 1209601001 \<and>
   (1000::int) + 14 * msPerDay = 1209601000 \<and>
   fst (the (realizar_prestamo zona_utc 8640000000000000 8640000000000000 0 0 0 biblioteca))
     = Inl RangeError \<and>
   \<not> disponible (libros (snd (the (realizar_prestamo zona_utc 8640000000000000
       8640000000000000 0 0 0 biblioteca))) ! 0) \<and>
   length (almacen (snd (the (realizar_prestamo zona_utc 8640000000000000
       8640000000000000 0 0 0 biblioteca)))) = 1"
  by (simp add: realizar_prestamo_def biblioteca_def Libro_new_def Usuario_new_def
      GestorPrestamos_new_def Prestamo_new_def setDate_getDate_mas_def Date_new_def TimeClip_def
      valido_def UTC_def LocalTime_def toISOString_def
      zona_utc_def zona_cambio_def msPerDay_def Let_def split: prod.splits)

text \<open>
  C7, amended. When the book is available and the due date is a valid date,
  \<open>realizar_prestamo\<close> returns a new loan of that book and user that is not returned, makes
  the book unavailable and appends the loan to the loans of the manager. When the
  constructor reads the same time twice, the due date is the loan date moved by 14 days of
  local time, which is the loan date plus 14 times 24 hours whenever the offset of local
  time from UTC is the same at both ends.
\<close>

theorem realizar_prestamo_disponible:
  assumes "g < length (gestores s)" "l < length (libros s)" "u < length (usuarios s)"
    and "disponible (libros s ! l)"
    and "setDate_getDate_mas z (Date_new t2) 14 = Some v"
  shows "\<exists>r s' pr. realizar_prestamo z t1 t2 g l u s = Some (Inr (Some r), s') \<and>
           r = length (almacen s) \<and> almacen s' = almacen s @ [pr] \<and>
           libro pr = l \<and> usuario pr = u \<and> fecha_prestamo pr = Date_new t1 \<and>
           fecha_devolucion pr = Some v \<and> \<not> devuelto pr \<and>
           (t1 = t2 \<longrightarrow>
              fecha_prestamo pr = Some t1 \<and> v = UTC z (LocalTime z t1 + 14 * msPerDay)) \<and>
           (t1 = t2 \<and> z t2 True = z (LocalTime z t2 + 14 * msPerDay) False \<longrightarrow>
              v = t1 + 14 * msPerDay) \<and>
           libros s' = (libros s)[l := (libros s ! l)\<lparr>disponible := False\<rparr>] \<and>
           \<not> disponible (libros s' ! l) \<and>
           length (gestores s') = length (gestores s) \<and>
           prestamos (gestores s' ! g) = prestamos (gestores s ! g) @ [r]"
proof -
  note k = setDate_Some [OF assms(5)]
  have a: "t1 = t2 \<longrightarrow> Date_new t1 = Some t1 \<and> v = UTC z (LocalTime z t1 + 14 * msPerDay)"
    using k by (simp add: Date_new_valido)
  have b: "t1 = t2 \<and> z t2 True = z (LocalTime z t2 + 14 * msPerDay) False \<longrightarrow>
      v = t1 + 14 * msPerDay"
    using k by (auto simp: UTC_def LocalTime_def)
  show ?thesis
    using assms(1-4) a b
    by (simp add: realizar_prestamo_exito [OF assms refl] Prestamo_new_def assms(5))
qed

theorem realizar_prestamo_disponible_witness:
  "0 < length (gestores biblioteca) \<and> 0 < length (libros biblioteca) \<and>
   0 < length (usuarios biblioteca) \<and> disponible (libros biblioteca ! 0) \<and>
   setDate_getDate_mas zona_utc (Date_new 1000) 14 = Some 1209601000 \<and>
   (1000::int) = 1000 \<and> zona_utc 1000 True = zona_utc (LocalTime zona_utc 1000 + 14 * msPerDay) False \<and>
   (\<exists>s' pr. realizar_prestamo zona_utc 1000 1000 0 0 0 biblioteca = Some (Inr (Some 0), s') \<and>
      almacen s' = [pr] \<and> fecha_prestamo pr = Some 1000 \<and>
      fecha_devolucion pr = Some (1000 + 14 * msPerDay) \<and>
      \<not> devuelto pr \<and> \<not> disponible (libros s' ! 0) \<and> prestamos (gestores s' ! 0) = [0])"
proof -
  have h: "0 < length (gestores biblioteca)" "0 < length (libros biblioteca)"
    "0 < length (usuarios biblioteca)" "disponible (libros biblioteca ! 0)"
    by (simp_all add: biblioteca_campos)
  have f: "setDate_getDate_mas zona_utc (Date_new 1000) 14 = Some 1209601000"
    by (rule vencimiento_ejemplos(1))
  have o: "zona_utc 1000 True = zona_utc (LocalTime zona_utc 1000 + 14 * msPerDay) False"
    by (simp add: zona_utc_def)
  have d: "(1000::int) + 14 * msPerDay = 1209601000" by (simp add: msPerDay_def)
  from realizar_prestamo_disponible [OF h f, of 1000] h f o d show ?thesis
    by (auto simp: biblioteca_campos)
qed



subsection \<open>Availability and open loans\<close>

text \<open>
  C1. After any sequence of calls from a freshly constructed state (constructor calls
  included), a book is available if and only if no loan in the list of any manager refers to
  it and is not returned.
\<close>

theorem disponible_sii_sin_prestamo_abierto:
  assumes "recien_construido s0" "ejecutar cs s0 = Some s" "l < length (libros s)"
  shows "disponible (libros s ! l) \<longleftrightarrow>
         \<not> (\<exists>g < length (gestores s). \<exists>p \<in> set (prestamos (gestores s ! g)).
              libro (almacen s ! p) = l \<and> \<not> devuelto (almacen s ! p))"
proof -
  have c: "consistente s"
    using assms(1,2) consistente_inicial consistente_ejecutar by blast
  then have d: "disponible (libros s ! l) \<longleftrightarrow>
      (\<forall>p < length (almacen s). libro (almacen s ! p) = l \<longrightarrow> devuelto (almacen s ! p))"
    using assms(3) by (simp add: consistente_def)
  have en: "\<forall>p < length (almacen s). \<exists>g < length (gestores s). p \<in> set (prestamos (gestores s ! g))"
    using c by (simp add: consistente_def)
  have de: "\<forall>g < length (gestores s). \<forall>p \<in> set (prestamos (gestores s ! g)). p < length (almacen s)"
    using c by (simp add: consistente_def)
  show ?thesis
  proof
    assume "disponible (libros s ! l)"
    with d de show "\<not> (\<exists>g < length (gestores s). \<exists>p \<in> set (prestamos (gestores s ! g)).
              libro (almacen s ! p) = l \<and> \<not> devuelto (almacen s ! p))"
      by blast
  next
    assume "\<not> (\<exists>g < length (gestores s). \<exists>p \<in> set (prestamos (gestores s ! g)).
              libro (almacen s ! p) = l \<and> \<not> devuelto (almacen s ! p))"
    with en have "\<forall>p < length (almacen s). libro (almacen s ! p) = l \<longrightarrow> devuelto (almacen s ! p)"
      by blast
    with d show "disponible (libros s ! l)" by simp
  qed
qed

theorem disponible_sii_sin_prestamo_abierto_witness:
  "recien_construido biblioteca \<and>
   ejecutar [RealizarPrestamo zona_utc 1000 1000 0 0 0] biblioteca = Some prestada \<and>
   0 < length (libros prestada) \<and> \<not> disponible (libros prestada ! 0) \<and>
   (\<exists>g < length (gestores prestada). \<exists>p \<in> set (prestamos (gestores prestada ! g)).
      libro (almacen prestada ! p) = 0 \<and> \<not> devuelto (almacen prestada ! p)) \<and>
   ejecutar [RealizarPrestamo zona_utc 1000 1000 0 0 0, DevolverLibro 5000 0 0] biblioteca
     = Some devuelta \<and>
   0 < length (libros devuelta) \<and> disponible (libros devuelta ! 0) \<and>
   \<not> (\<exists>g < length (gestores devuelta). \<exists>p \<in> set (prestamos (gestores devuelta ! g)).
      libro (almacen devuelta ! p) = 0 \<and> \<not> devuelto (almacen devuelta ! p))"
proof -
  have e1: "ejecutar [RealizarPrestamo zona_utc 1000 1000 0 0 0] biblioteca = Some prestada"
    using paso_prestar_biblioteca by auto
  have e2: "ejecutar [RealizarPrestamo zona_utc 1000 1000 0 0 0, DevolverLibro 5000 0 0] biblioteca
     = Some devuelta"
    using paso_prestar_biblioteca devolver_prestada by auto
  have l1: "0 < length (libros prestada)" "\<not> disponible (libros prestada ! 0)"
    by (simp_all add: prestada_campos)
  have l2: "0 < length (libros devuelta)" "disponible (libros devuelta ! 0)"
    by (simp_all add: devuelta_campos)
  from disponible_sii_sin_prestamo_abierto [OF recien_construido_biblioteca e1 l1(1)]
    disponible_sii_sin_prestamo_abierto [OF recien_construido_biblioteca e2 l2(1)]
    recien_construido_biblioteca e1 e2 l1 l2
  show ?thesis by simp
qed

subsection \<open>A returned loan stays returned\<close>

text \<open>
  C8. Across any sequence of calls, a loan stays in the store; once it is returned it is
  returned ever after; and if it goes from open to returned, the sequence contains a call of
  \<open>devolver_libro\<close> on that very loan.
\<close>

theorem devuelto_no_vuelve:
  assumes "ejecutar cs s = Some s'" "p < length (almacen s)"
  shows "p < length (almacen s') \<and>
         (devuelto (almacen s ! p) \<longrightarrow> devuelto (almacen s' ! p)) \<and>
         (\<not> devuelto (almacen s ! p) \<and> devuelto (almacen s' ! p) \<longrightarrow>
            (\<exists>t g. DevolverLibro t g p \<in> set cs))"
  using assms
proof (induction cs arbitrary: s)
  case Nil
  then show ?case by simp
next
  case (Cons c cs)
  from Cons.prems(1) obtain s1 where s1: "paso c s = Some s1" "ejecutar cs s1 = Some s'"
    by (auto split: option.splits)
  note a = paso_devuelto [OF s1(1) Cons.prems(2)]
  then have b: "p < length (almacen s1)" by simp
  note ih = Cons.IH [OF s1(2) b]
  show ?case
  proof (intro conjI impI)
    show "p < length (almacen s')" using ih by simp
    show "devuelto (almacen s' ! p)" if "devuelto (almacen s ! p)"
      using that a ih by simp
    show "\<exists>t g. DevolverLibro t g p \<in> set (c # cs)"
      if "\<not> devuelto (almacen s ! p) \<and> devuelto (almacen s' ! p)"
    proof (cases "devuelto (almacen s1 ! p)")
      case True
      with that a obtain t g where "c = DevolverLibro t g p" by blast
      then show ?thesis by auto
    next
      case False
      with that ih obtain t g where "DevolverLibro t g p \<in> set cs" by blast
      then show ?thesis by auto
    qed
  qed
qed

theorem devuelto_no_vuelve_witness:
  "(\<exists>s'. ejecutar [DevolverLibro 6000 0 0, RealizarPrestamo zona_utc 7000 7000 0 0 0] devuelta = Some s' \<and>
      0 < length (almacen devuelta) \<and> devuelto (almacen devuelta ! 0) \<and>
      devuelto (almacen s' ! 0)) \<and>
   ejecutar [DevolverLibro 5000 0 0] prestada = Some devuelta \<and>
   0 < length (almacen prestada) \<and> \<not> devuelto (almacen prestada ! 0) \<and>
   devuelto (almacen devuelta ! 0) \<and>
   (\<exists>t g. DevolverLibro t g 0 \<in> set [DevolverLibro 5000 0 0])"
proof -
  have d: "devolver_libro 6000 0 0 devuelta =
      Some (devuelta\<lparr>consola := consola devuelta @ [YaDevuelto]\<rparr>)"
    by (simp add: devolver_libro_repetido devuelta_campos prestada_campos)
  obtain x where x: "realizar_prestamo zona_utc 7000 7000 0 0 0
      (devuelta\<lparr>consola := consola devuelta @ [YaDevuelto]\<rparr>) = Some x"
    using realizar_prestamo_definido [of 0 "devuelta\<lparr>consola := consola devuelta @ [YaDevuelto]\<rparr>"
        0 0 zona_utc 7000 7000]
    by (auto simp: devuelta_campos prestada_campos)
  have "ejecutar [DevolverLibro 6000 0 0, RealizarPrestamo zona_utc 7000 7000 0 0 0] devuelta
      = Some (snd x)"
    by (simp add: d x)
  then obtain s' where s': "ejecutar [DevolverLibro 6000 0 0, RealizarPrestamo zona_utc 7000 7000 0 0 0] devuelta = Some s'"
    by blast
  have e2: "ejecutar [DevolverLibro 5000 0 0] prestada = Some devuelta"
    using devolver_prestada by simp
  have l1: "0 < length (almacen devuelta)" "devuelto (almacen devuelta ! 0)"
    by (simp_all add: devuelta_campos)
  have l2: "0 < length (almacen prestada)" "\<not> devuelto (almacen prestada ! 0)"
    by (simp_all add: prestada_campos)
  from devuelto_no_vuelve [OF s' l1(1)] devuelto_no_vuelve [OF e2 l2(1)] s' e2 l1 l2
  show ?thesis by auto
qed

end
